theory Spec2Isabelle
  imports
    Complex_Main
    "HOL-Library.AList"
    "HOL-Library.Sublist"
    "HOL-Library.Char_ord"
    "HOL-Library.List_Lexorder"
begin

section \<open>Land search agent: data model\<close>

text \<open>
  The development embeds \<^verbatim>\<open>src/realestate/data_loader.py\<close> (the listing record and its
  two derived properties) and \<^verbatim>\<open>src/realestate/agent.py\<close> (criteria, filter, scoring and
  ranking).

  Conventions of the embedding.
  \<^item> Python \<^verbatim>\<open>float\<close> and \<^verbatim>\<open>int\<close> numbers are exact: \<^typ>\<open>real\<close> and \<^typ>\<open>int\<close>. Rounding,
    infinities and NaN of IEEE arithmetic are outside the model.
  \<^item> A Python \<^verbatim>\<open>str\<close> is the \<^typ>\<open>string\<close> of its UTF-8 bytes, so equality of strings is
    equality of byte lists and the byte-wise lexicographic order is the code point order.
  \<^item> \<^verbatim>\<open>str.lower\<close> is a builtin of the language, not code of the repository. Every
    function that calls it takes it as its first argument \<open>lower\<close>; the theorems hold
    for every such function. \<open>ascii_lower\<close> below is the one used on concrete inputs.
  \<^item> A true division \<^verbatim>\<open>a / b\<close> by a divisor that is not a non-zero literal is
    \<open>truediv\<close>, which returns \<open>Inl ZeroDivisionError\<close> for a zero divisor; functions
    that divide return \<open>error + _\<close>.
\<close>

datatype error = ZeroDivisionError | TypeError

definition truediv :: "real \<Rightarrow> real \<Rightarrow> error + real" where
  "truediv a b = (if b = 0 then Inl ZeroDivisionError else Inr (a / b))"

definition bind_err :: "error + 'a \<Rightarrow> ('a \<Rightarrow> error + 'b) \<Rightarrow> error + 'b" where
  "bind_err m f = (case m of Inl e \<Rightarrow> Inl e | Inr x \<Rightarrow> f x)"

text \<open>The values a JSON document or a Python literal can put into a \<^verbatim>\<open>dict\<close>.\<close>

datatype pyobj =
    PyNone
  | PyBool bool
  | PyInt int
  | PyFloat real
  | PyStr string
  | PyTuple "pyobj list"
  | PyList "pyobj list"
  | PyDict "(string \<times> pyobj) list"

text \<open>Truth value of an object, as \<^verbatim>\<open>if value:\<close> tests it.\<close>

fun truthy :: "pyobj \<Rightarrow> bool" where
  "truthy PyNone = False"
| "truthy (PyBool b) = b"
| "truthy (PyInt i) = (i \<noteq> 0)"
| "truthy (PyFloat r) = (r \<noteq> 0)"
| "truthy (PyStr s) = (s \<noteq> [])"
| "truthy (PyTuple xs) = (xs \<noteq> [])"
| "truthy (PyList xs) = (xs \<noteq> [])"
| "truthy (PyDict kvs) = (kvs \<noteq> [])"

text \<open>\<^verbatim>\<open>data.get(key)\<close>: the value, or \<^verbatim>\<open>None\<close> for a missing key.\<close>

definition dict_get :: "(string \<rightharpoonup> pyobj) \<Rightarrow> string \<Rightarrow> pyobj" where
  "dict_get data k = (case data k of None \<Rightarrow> PyNone | Some v \<Rightarrow> v)"

text \<open>
  \<^verbatim>\<open>isinstance(v, (int, float))\<close> together with the number \<open>v\<close> then stands for;
  \<^verbatim>\<open>bool\<close> is a subclass of \<^verbatim>\<open>int\<close>, with \<^verbatim>\<open>True == 1\<close>.
\<close>

fun as_number :: "pyobj \<Rightarrow> real option" where
  "as_number (PyBool b) = Some (if b then 1 else 0)"
| "as_number (PyInt i) = Some (real_of_int i)"
| "as_number (PyFloat r) = Some r"
| "as_number v = None"

definition lower_char :: "char \<Rightarrow> char" where
  "lower_char c =
     (if CHR ''A'' \<le> c \<and> c \<le> CHR ''Z'' then char_of (of_char c + (32::nat)) else c)"

definition ascii_lower :: "string \<Rightarrow> string" where
  "ascii_lower s = map lower_char s"

subsection \<open>Listing (data_loader.py)\<close>

record Listing =
  listing_id :: string
  name :: string
  region :: string
  province :: string
  commune :: string
  locality :: string
  property_type :: string
  area_m2 :: real
  price_per_m2 :: real
  zoning :: string
  services :: "string list"
  transport :: "string \<rightharpoonup> pyobj"
  topography :: string
  notes_txt :: string
  url :: string

text \<open>The accented letters and the typographic apostrophe of the table, in UTF-8.\<close>

definition a_acute :: string where "a_acute = [CHR 0xC3, CHR 0xA1]"
definition e_acute :: string where "e_acute = [CHR 0xC3, CHR 0xA9]"
definition i_acute :: string where "i_acute = [CHR 0xC3, CHR 0xAD]"
definition o_acute :: string where "o_acute = [CHR 0xC3, CHR 0xB3]"
definition n_tilde :: string where "n_tilde = [CHR 0xC3, CHR 0xB1]"
definition N_tilde :: string where "N_tilde = [CHR 0xC3, CHR 0x91]"
definition apostrophe :: string where "apostrophe = [CHR 0x27]"
definition right_quote :: string where "right_quote = [CHR 0xE2, CHR 0x80, CHR 0x99]"

definition MACROZONE_BY_REGION :: "(string \<times> string) list" where
  "MACROZONE_BY_REGION =
    [(''Arica y Parinacota'', ''Norte Grande''),
     (''Tarapac'' @ a_acute, ''Norte Grande''),
     (''Antofagasta'', ''Norte Grande''),
     (''Atacama'', ''Norte Chico''),
     (''Coquimbo'', ''Norte Chico''),
     (''Valpara'' @ i_acute @ ''so'', ''Zona Centro''),
     (''Metropolitana de Santiago'', ''Zona Centro''),
     (''Libertador General Bernardo O'' @ apostrophe @ ''Higgins'', ''Zona Centro''),
     (''Libertador General Bernardo O'' @ right_quote @ ''Higgins'', ''Zona Centro''),
     (''O'' @ apostrophe @ ''Higgins'', ''Zona Centro''),
     (''O'' @ right_quote @ ''Higgins'', ''Zona Centro''),
     (''Maule'', ''Zona Centro-Sur''),
     (N_tilde @ ''uble'', ''Zona Sur''),
     (''Nuble'', ''Zona Sur''),
     (''Biob'' @ i_acute @ ''o'', ''Zona Sur''),
     (''Biobio'', ''Zona Sur''),
     (''La Araucan'' @ i_acute @ ''a'', ''Zona Sur''),
     (''Los R'' @ i_acute @ ''os'', ''Zona Sur''),
     (''Los Lagos'', ''Zona Austral''),
     (''Ays'' @ e_acute @ ''n del General Carlos Ib'' @ a_acute @ n_tilde @ ''ez del Campo'',
        ''Zona Austral''),
     (''Aysen del General Carlos Ibanez del Campo'', ''Zona Austral''),
     (''Magallanes y de la Ant'' @ a_acute @ ''rtica Chilena'', ''Zona Austral'')]"

definition total_price :: "Listing \<Rightarrow> real" where
  "total_price L = area_m2 L * price_per_m2 L"

definition macrozone :: "Listing \<Rightarrow> string" where
  "macrozone L =
     (case map_of MACROZONE_BY_REGION (region L) of
        Some zone \<Rightarrow> zone
      | None \<Rightarrow> ''Zona Desconocida'')"

subsection \<open>SearchCriteria (agent.py)\<close>

text \<open>
  \<open>max_total_price\<close> and \<open>max_price_per_m2\<close> are \<^verbatim>\<open>float | None\<close>. The mapping
  \<open>transport_importance\<close> is the list of its items in iteration order.
\<close>

record SearchCriteria =
  preferred_regions :: "string list"
  preferred_macrozones :: "string list"
  target_zonings :: "string list"
  min_area_m2 :: real
  min_area_hectares :: real
  max_total_price :: "real option"
  max_price_per_m2 :: "real option"
  required_services :: "string list"
  preferred_services :: "string list"
  transport_importance :: "(string \<times> real) list"
  desired_property_types :: "string list"

text \<open>\<^verbatim>\<open>SearchCriteria()\<close>: every field at its default.\<close>

definition default_criteria :: SearchCriteria where
  "default_criteria =
     \<lparr> preferred_regions = [], preferred_macrozones = [], target_zonings = [],
       min_area_m2 = 0, min_area_hectares = 0,
       max_total_price = None, max_price_per_m2 = None,
       required_services = [], preferred_services = [],
       transport_importance = [], desired_property_types = [] \<rparr>"

definition area_threshold_m2 :: "SearchCriteria \<Rightarrow> real" where
  "area_threshold_m2 C =
     (let min_m2 = max (min_area_m2 C) 0 in
      if min_area_hectares C \<noteq> 0
      then max min_m2 (min_area_hectares C * 10000)
      else min_m2)"

text \<open>The loop over \<open>required_services\<close> at the end of \<^verbatim>\<open>matches\<close>.\<close>

fun has_required :: "(string \<Rightarrow> string) \<Rightarrow> string list \<Rightarrow> string set \<Rightarrow> bool" where
  "has_required lower [] available = True"
| "has_required lower (service # rest) available =
     (if lower service \<notin> available then False else has_required lower rest available)"

definition exceeds :: "real \<Rightarrow> real option \<Rightarrow> bool" where
  "exceeds x cap = (case cap of None \<Rightarrow> False | Some m \<Rightarrow> x > m)"

definition matches :: "(string \<Rightarrow> string) \<Rightarrow> SearchCriteria \<Rightarrow> Listing \<Rightarrow> bool" where
  "matches lower C L =
     (if preferred_macrozones C \<noteq> [] \<and>
         lower (macrozone L) \<notin> lower ` set (preferred_macrozones C) then False
      else if preferred_regions C \<noteq> [] \<and>
         lower (region L) \<notin> lower ` set (preferred_regions C) then False
      else if desired_property_types C \<noteq> [] \<and>
         lower (property_type L) \<notin> lower ` set (desired_property_types C) then False
      else if target_zonings C \<noteq> [] \<and>
         lower (zoning L) \<notin> lower ` set (target_zonings C) then False
      else if area_m2 L < area_threshold_m2 C then False
      else if exceeds (total_price L) (max_total_price C) then False
      else if exceeds (price_per_m2 L) (max_price_per_m2 C) then False
      else has_required lower (required_services C) (lower ` set (services L)))"

section \<open>Scoring engine (agent.py, RealEstateSearchAgent)\<close>

subsection \<open>Connectivity\<close>

definition mode_availability ::
    "(string \<Rightarrow> string) \<Rightarrow> string \<Rightarrow> (string \<rightharpoonup> pyobj) \<Rightarrow> real" where
  "mode_availability lower mode0 data =
     (let mode = lower mode0 in
      if mode = ''carretera'' then
        (case as_number (dict_get data ''distancia_km'') of
           Some distance \<Rightarrow> max 0 (1 - min (distance / 10) 1)
         | None \<Rightarrow> if data ''carretera'' \<noteq> None then 0.7 else 0)
      else if mode = ''ferrocarril'' then
        (case dict_get data ''ferrocarril'' of
           PyBool b \<Rightarrow> if b then 1 else 0
         | v \<Rightarrow> if truthy v then 0.5 else 0)
      else if mode = ''aeropuerto'' then
        (case as_number (dict_get data ''aeropuerto_km'') of
           Some distance \<Rightarrow> max 0 (1 - min (distance / 50) 1)
         | None \<Rightarrow> 0)
      else if truthy (dict_get data mode) then 0.5 else 0)"

text \<open>
  The first loop of \<^verbatim>\<open>_transport_score\<close>: \<^verbatim>\<open>normalized[key] = value / total\<close> for every
  item of \<open>importance\<close>. \<open>AList.update\<close> is the assignment to a key of an
  insertion-ordered \<^verbatim>\<open>dict\<close>.
\<close>

fun normalize_weights ::
    "(string \<times> real) list \<Rightarrow> real \<Rightarrow> (string \<times> real) list \<Rightarrow> error + (string \<times> real) list" where
  "normalize_weights [] total_sum normalized = Inr normalized"
| "normalize_weights ((key, v) # items) total_sum normalized =
     bind_err (truediv v total_sum)
       (\<lambda>w. normalize_weights items total_sum (AList.update key w normalized))"

text \<open>The second loop: \<^verbatim>\<open>score += weight * availability\<close> over the normalized items.\<close>

fun accumulate ::
    "(string \<Rightarrow> string) \<Rightarrow> (string \<times> real) list \<Rightarrow> (string \<rightharpoonup> pyobj) \<Rightarrow> real \<Rightarrow> real" where
  "accumulate lower [] data score = score"
| "accumulate lower ((mode, weight) # items) data score =
     accumulate lower items data (score + weight * mode_availability lower mode data)"

definition transport_score ::
    "(string \<Rightarrow> string) \<Rightarrow> Listing \<Rightarrow> (string \<times> real) list \<Rightarrow> error + real" where
  "transport_score lower L importance =
     (if importance = [] then Inr 0.6
      else
        let s = sum_list (map snd importance);
            total_sum = (if s \<noteq> 0 then s else 1)
        in bind_err (normalize_weights importance total_sum [])
             (\<lambda>normalized. Inr (accumulate lower normalized (transport L) 0)))"

subsection \<open>The five dimensions\<close>

text \<open>Location: the raw value and the label written to the highlights.\<close>

definition location :: "Listing \<Rightarrow> SearchCriteria \<Rightarrow> real \<times> string" where
  "location L C =
     (if preferred_regions C \<noteq> [] then
        (if region L \<in> set (preferred_regions C)
         then (1, ''Regi'' @ o_acute @ ''n preferida'')
         else (0.4, ''Regi'' @ o_acute @ ''n alternativa''))
      else if preferred_macrozones C \<noteq> [] then
        (if macrozone L \<in> set (preferred_macrozones C)
         then (0.9, ''Macrozona preferida'')
         else (0.5, ''Macrozona alternativa''))
      else (0.7, ''Sin preferencia''))"

text \<open>
  Services: \<^verbatim>\<open>len(wanted & services) / len(wanted) if wanted else fallback\<close>, which is
  \<open>coverage\<close> for the required services (fallback 1.0) and \<open>preferred_score\<close> for the
  preferred ones (fallback 0.5).
\<close>

definition share :: "string set \<Rightarrow> string set \<Rightarrow> real \<Rightarrow> error + real" where
  "share wanted available fallback =
     (if wanted \<noteq> {}
      then truediv (real (card (wanted \<inter> available))) (real (card wanted))
      else Inr fallback)"

text \<open>
  Price: the guard \<^verbatim>\<open>if criteria.max_total_price:\<close> is false for \<^verbatim>\<open>None\<close> and for
  zero, and so is the guard on \<open>max_price_per_m2\<close>.
\<close>

definition price_component :: "Listing \<Rightarrow> SearchCriteria \<Rightarrow> error + real" where
  "price_component L C =
     bind_err
       (case max_total_price C of
          Some m \<Rightarrow>
            if m \<noteq> 0
            then bind_err (truediv (total_price L) m)
                   (\<lambda>ratio. Inr (max 0 (1 - min ratio 1.5)))
            else Inr 0.6
        | None \<Rightarrow> Inr 0.6)
       (\<lambda>component.
          case max_price_per_m2 C of
            Some m \<Rightarrow>
              if m \<noteq> 0
              then bind_err (truediv (price_per_m2 L) m)
                     (\<lambda>ratio_m2. Inr ((component + max 0 (1 - min ratio_m2 1.5)) / 2))
              else Inr component
          | None \<Rightarrow> Inr component)"

text \<open>Area: saturates at four times the divisor \<^verbatim>\<open>max(threshold, 1)\<close>.\<close>

definition area_score :: "Listing \<Rightarrow> SearchCriteria \<Rightarrow> error + real" where
  "area_score L C =
     bind_err (truediv (area_m2 L) (max (area_threshold_m2 C) 1))
       (\<lambda>area_ratio. Inr (min (area_ratio / 4) 1))"

subsection \<open>Highlights\<close>

datatype hval =
    HStr string
  | HNum real
  | HStrs "string list"
  | HDict "string \<rightharpoonup> pyobj"

text \<open>\<^verbatim>\<open>round(x, 2)\<close>: to the nearest hundredth, a tie going to the even one.\<close>

definition round_half_even :: "real \<Rightarrow> int" where
  "round_half_even y =
     (let f = \<lfloor>y\<rfloor>; d = y - real_of_int f in
      if d < 1 / 2 then f
      else if d > 1 / 2 then f + 1
      else if even f then f else f + 1)"

definition round2 :: "real \<Rightarrow> real" where
  "round2 x = real_of_int (round_half_even (x * 100)) / 100"

subsection \<open>\<^verbatim>\<open>_score_listing\<close>\<close>

definition k_ubicacion :: string where
  "k_ubicacion = ''ubicaci'' @ o_acute @ ''n''"

definition score_listing ::
    "(string \<Rightarrow> string) \<Rightarrow> Listing \<Rightarrow> SearchCriteria \<Rightarrow>
       error + (real \<times> (string \<times> real) list \<times> (string \<times> hval) list)" where
  "score_listing lower L C =
     (let breakdown = [];
          highlights = [];
          score = 0;
          highlights = AList.update ''region'' (HStr (region L)) highlights;
          highlights = AList.update ''macrozona'' (HStr (macrozone L)) highlights;
          (v, label) = location L C;
          highlights = AList.update ''ubicacion'' (HStr label) highlights;
          ubicacion = v * 0.25;
          breakdown = AList.update k_ubicacion ubicacion breakdown;
          score = score + ubicacion;
          available = lower ` set (services L);
          required = lower ` set (required_services C);
          preferred = lower ` set (preferred_services C)
      in
      bind_err (share required available 1) (\<lambda>coverage.
      bind_err (share preferred available 0.5) (\<lambda>preferred_score.
        let services_score = 0.4 * (0.6 * coverage + 0.4 * preferred_score);
            breakdown = AList.update ''servicios'' services_score breakdown;
            score = score + services_score;
            highlights = AList.update ''servicios_cubiertos''
                           (HStrs (sorted_list_of_set (required \<inter> available))) highlights;
            highlights = AList.update ''servicios_preferidos''
                           (HStrs (sorted_list_of_set (preferred \<inter> available))) highlights;
            price_weight = 0.2
        in
      bind_err (price_component L C) (\<lambda>component.
        let precio = component * price_weight;
            breakdown = AList.update ''precio'' precio breakdown;
            score = score + precio;
            highlights = AList.update ''precio_total_clp''
                           (HNum (round2 (total_price L))) highlights;
            highlights = AList.update ''precio_m2_clp'' (HNum (price_per_m2 L)) highlights
        in
      bind_err (transport_score lower L (transport_importance C)) (\<lambda>connectivity.
        let conectividad = connectivity * 0.15;
            breakdown = AList.update ''conectividad'' conectividad breakdown;
            score = score + conectividad;
            highlights = AList.update ''transporte'' (HDict (transport L)) highlights
        in
      bind_err (area_score L C) (\<lambda>area.
        let superficie = area * 0.2;
            breakdown = AList.update ''superficie'' superficie breakdown;
            score = score + superficie;
            highlights = AList.update ''area_m2'' (HNum (area_m2 L)) highlights;
            highlights = AList.update ''area_ha'' (HNum (area_m2 L / 10000)) highlights
        in Inr (score, breakdown, highlights)))))))"

text \<open>The entry of the returned breakdown under a key; \<open>None\<close> when the call raised.\<close>

definition breakdown_entry ::
    "string \<Rightarrow> error + (real \<times> (string \<times> real) list \<times> (string \<times> hval) list) \<Rightarrow> real option" where
  "breakdown_entry k r = (case r of Inl e \<Rightarrow> None | Inr (s, b, h) \<Rightarrow> map_of b k)"

section \<open>Ranking (\<^verbatim>\<open>RealEstateSearchAgent.search\<close>)\<close>

record SearchResult =
  listing :: Listing
  score :: real
  breakdown :: "(string \<times> real) list"
  highlights :: "(string \<times> hval) list"

text \<open>The loop of \<^verbatim>\<open>search\<close> over \<^verbatim>\<open>self._listings\<close>, appending to \<open>results\<close>.\<close>

fun collect ::
    "(string \<Rightarrow> string) \<Rightarrow> Listing list \<Rightarrow> SearchCriteria \<Rightarrow> SearchResult list \<Rightarrow>
       error + SearchResult list" where
  "collect lower [] C results = Inr results"
| "collect lower (L # rest) C results =
     (if \<not> matches lower C L then collect lower rest C results
      else bind_err (score_listing lower L C)
             (\<lambda>(s, b, h). collect lower rest C
                (results @ [\<lparr> listing = L, score = s, breakdown = b, highlights = h \<rparr>])))"

text \<open>
  \<^verbatim>\<open>results.sort(key=lambda result: result.score, reverse=True)\<close>: the builtin sort is
  stable, also with \<^verbatim>\<open>reverse=True\<close>; so is insertion sort on the negated key.
\<close>

definition sort_by_score_reverse :: "SearchResult list \<Rightarrow> SearchResult list" where
  "sort_by_score_reverse results = sort_key (\<lambda>result. - score result) results"

text \<open>\<^verbatim>\<open>xs[:n]\<close>; a negative \<open>n\<close> counts from the end.\<close>

definition slice_to :: "'a list \<Rightarrow> int \<Rightarrow> 'a list" where
  "slice_to xs n =
     (if 0 \<le> n then take (nat n) xs else take (nat (int (length xs) + n)) xs)"

definition search ::
    "(string \<Rightarrow> string) \<Rightarrow> Listing list \<Rightarrow> SearchCriteria \<Rightarrow> int \<Rightarrow> error + SearchResult list" where
  "search lower listings C top_n =
     bind_err (collect lower listings C [])
       (\<lambda>results. Inr (slice_to (sort_by_score_reverse results) top_n))"

section \<open>\<^verbatim>\<open>SearchCriteria.from_dict\<close>\<close>

text \<open>
  \<^verbatim>\<open>from_dict\<close> copies the mapping and passes it as keyword arguments to the constructor
  the \<^verbatim>\<open>dataclass\<close> decorator generates. That constructor has one keyword parameter per
  field, each with a default, and no \<^verbatim>\<open>**kwargs\<close>: a keyword that is not a field name is
  a \<^verbatim>\<open>TypeError\<close>. It stores the values as they come, without conversion or validation,
  so the result is modelled as the attribute dictionary of the new instance.
\<close>

definition FIELD_NAMES :: "string list" where
  "FIELD_NAMES =
     [''preferred_regions'', ''preferred_macrozones'', ''target_zonings'',
      ''min_area_m2'', ''min_area_hectares'', ''max_total_price'', ''max_price_per_m2'',
      ''required_services'', ''preferred_services'', ''transport_importance'',
      ''desired_property_types'']"

definition field_default :: "string \<Rightarrow> pyobj" where
  "field_default f =
     (if f = ''min_area_m2'' \<or> f = ''min_area_hectares'' then PyFloat 0
      else if f = ''max_total_price'' \<or> f = ''max_price_per_m2'' then PyNone
      else if f = ''transport_importance'' then PyDict []
      else PyTuple [])"

definition dataclass_init :: "(string \<times> pyobj) list \<Rightarrow> error + (string \<rightharpoonup> pyobj)" where
  "dataclass_init kwargs =
     (if list_ex (\<lambda>k. k \<notin> set FIELD_NAMES) (map fst kwargs) then Inl TypeError
      else Inr (\<lambda>f. if f \<in> set FIELD_NAMES
                     then Some (case map_of kwargs f of Some v \<Rightarrow> v | None \<Rightarrow> field_default f)
                     else None))"

definition from_dict :: "(string \<times> pyobj) list \<Rightarrow> error + (string \<rightharpoonup> pyobj)" where
  "from_dict data = (let kwargs = data in dataclass_init kwargs)"

section \<open>The specification's vocabulary\<close>



text \<open>
  The price rule of the scoring table. A cap counts as set for the scorer when its guard
  \<^verbatim>\<open>if criteria.max_total_price:\<close> lets it through: not \<^verbatim>\<open>None\<close> and not zero.
\<close>

definition cap_set :: "real option \<Rightarrow> bool" where
  "cap_set cap = (case cap of None \<Rightarrow> False | Some m \<Rightarrow> m \<noteq> 0)"

definition clamped :: "real \<Rightarrow> real \<Rightarrow> real" where
  "clamped amount m = max 0 (1 - min (amount / m) 1.5)"

definition spec_price_component :: "Listing \<Rightarrow> SearchCriteria \<Rightarrow> real" where
  "spec_price_component L C =
     (let start = (if cap_set (max_total_price C)
                   then clamped (total_price L) (the (max_total_price C))
                   else 0.6)
      in if cap_set (max_price_per_m2 C)
         then (start + clamped (price_per_m2 L) (the (max_price_per_m2 C))) / 2
         else start)"

section \<open>Sample data\<close>

text \<open>
  The two listings and the criteria of the specification's end-to-end example; the
  fields the example leaves open are empty.
\<close>

definition listing_A :: Listing where
  "listing_A =
     \<lparr> listing_id = ''A'', name = ''Terreno A'', region = ''Valpara'' @ i_acute @ ''so'',
       province = [], commune = [], locality = [], property_type = [],
       area_m2 = 10000, price_per_m2 = 5000, zoning = [],
       services = [''agua'', ''electricidad''], transport = Map.empty,
       topography = [], notes_txt = [], url = [] \<rparr>"

definition listing_B :: Listing where
  "listing_B =
     \<lparr> listing_id = ''B'', name = ''Terreno B'', region = ''Maule'',
       province = [], commune = [], locality = [], property_type = [],
       area_m2 = 3000, price_per_m2 = 4000, zoning = [],
       services = [''electricidad''], transport = Map.empty,
       topography = [], notes_txt = [], url = [] \<rparr>"

definition example_criteria :: SearchCriteria where
  "example_criteria =
     default_criteria \<lparr> required_services := [''electricidad''], min_area_m2 := 5000 \<rparr>"

text \<open>A second listing with the data of A, and so with the score of A.\<close>

definition listing_A2 :: Listing where
  "listing_A2 = listing_A \<lparr> listing_id := ''A2'' \<rparr>"

text \<open>Criteria that name the region of B in lower case only.\<close>

definition maule_criteria :: SearchCriteria where
  "maule_criteria = default_criteria \<lparr> preferred_regions := [''maule''] \<rparr>"

text \<open>Criteria with both price caps, and criteria with a cap of zero.\<close>

definition capped_criteria :: SearchCriteria where
  "capped_criteria =
     default_criteria \<lparr> max_total_price := Some 100000000, max_price_per_m2 := Some 10000 \<rparr>"

definition zero_total_cap :: SearchCriteria where
  "zero_total_cap = default_criteria \<lparr> max_total_price := Some 0 \<rparr>"

definition zero_m2_cap :: SearchCriteria where
  "zero_m2_cap = default_criteria \<lparr> max_price_per_m2 := Some 0 \<rparr>"

text \<open>
  The edge cases of the division guards: a listing of area 0 under a threshold of 0, and
  importance weights that sum to 0.
\<close>

definition listing_zero_area :: Listing where
  "listing_zero_area = listing_A \<lparr> area_m2 := 0 \<rparr>"

definition zero_sum_criteria :: SearchCriteria where
  "zero_sum_criteria =
     default_criteria \<lparr> transport_importance := [(''carretera'', 1), (''aeropuerto'', - 1)] \<rparr>"

section \<open>Auxiliary facts\<close>

lemma bind_err_Inr [simp]: "bind_err (Inr x) f = f x"
  by (simp add: bind_err_def)

lemma truediv_Inr: "b \<noteq> 0 \<Longrightarrow> truediv a b = Inr (a / b)"
  by (simp add: truediv_def)

subsection \<open>No division of the scorer fails\<close>

lemma normalize_weights_Inr:
  "t \<noteq> 0 \<Longrightarrow> \<exists>n. normalize_weights items t acc = Inr n"
  by (induction items t acc rule: normalize_weights.induct) (simp_all add: truediv_Inr)

lemma transport_score_Inr: "\<exists>t. transport_score lower L imp = Inr t"
proof (cases "imp = []")
  case True
  then have "transport_score lower L imp = Inr 0.6"
    by (simp add: transport_score_def)
  then show ?thesis by (rule exI)
next
  case False
  define t where "t = (if sum_list (map snd imp) \<noteq> 0 then sum_list (map snd imp) else 1)"
  have "t \<noteq> 0" by (simp add: t_def)
  then obtain n where "normalize_weights imp t [] = Inr n"
    using normalize_weights_Inr by blast
  with False have "transport_score lower L imp = Inr (accumulate lower n (transport L) 0)"
    unfolding transport_score_def Let_def t_def by simp
  then show ?thesis by (rule exI)
qed

lemma share_eq:
  "finite wanted \<Longrightarrow>
     share wanted available fallback =
       Inr (if wanted \<noteq> {}
            then real (card (wanted \<inter> available)) / real (card wanted)
            else fallback)"
  by (simp add: share_def truediv_def)

lemma price_component_eq: "price_component L C = Inr (spec_price_component L C)"
  by (simp add: price_component_def spec_price_component_def cap_set_def clamped_def
      truediv_def Let_def split: option.splits)

lemma area_score_eq:
  "area_score L C = Inr (min (area_m2 L / max (area_threshold_m2 C) 1 / 4) 1)"
  by (simp add: area_score_def truediv_def max_def)

subsection \<open>What \<open>score_listing\<close> returns\<close>

lemma score_listing_shape:
  "\<exists>cov pref conn hl.
     share (lower ` set (required_services C)) (lower ` set (services L)) 1 = Inr cov \<and>
     share (lower ` set (preferred_services C)) (lower ` set (services L)) 0.5 = Inr pref \<and>
     transport_score lower L (transport_importance C) = Inr conn \<and>
     score_listing lower L C =
       Inr (0 + fst (location L C) * 0.25 + 0.4 * (0.6 * cov + 0.4 * pref)
              + spec_price_component L C * 0.2 + conn * 0.15
              + min (area_m2 L / max (area_threshold_m2 C) 1 / 4) 1 * 0.2,
            [(k_ubicacion, fst (location L C) * 0.25),
             (''servicios'', 0.4 * (0.6 * cov + 0.4 * pref)),
             (''precio'', spec_price_component L C * 0.2),
             (''conectividad'', conn * 0.15),
             (''superficie'', min (area_m2 L / max (area_threshold_m2 C) 1 / 4) 1 * 0.2)],
            hl)"
proof -
  obtain cov where cov:
    "share (lower ` set (required_services C)) (lower ` set (services L)) 1 = Inr cov"
    using share_eq [of "lower ` set (required_services C)"] by blast
  obtain pref where pref:
    "share (lower ` set (preferred_services C)) (lower ` set (services L)) 0.5 = Inr pref"
    using share_eq [of "lower ` set (preferred_services C)"] by blast
  obtain conn where conn: "transport_score lower L (transport_importance C) = Inr conn"
    using transport_score_Inr by blast
  have "\<exists>hl. score_listing lower L C =
       Inr (0 + fst (location L C) * 0.25 + 0.4 * (0.6 * cov + 0.4 * pref)
              + spec_price_component L C * 0.2 + conn * 0.15
              + min (area_m2 L / max (area_threshold_m2 C) 1 / 4) 1 * 0.2,
            [(k_ubicacion, fst (location L C) * 0.25),
             (''servicios'', 0.4 * (0.6 * cov + 0.4 * pref)),
             (''precio'', spec_price_component L C * 0.2),
             (''conectividad'', conn * 0.15),
             (''superficie'', min (area_m2 L / max (area_threshold_m2 C) 1 / 4) 1 * 0.2)],
            hl)"
    unfolding score_listing_def Let_def cov pref conn price_component_eq area_score_eq
    by (simp add: split_beta k_ubicacion_def o_acute_def)
  with cov pref conn show ?thesis by blast
qed

lemma score_listing_Inr: "\<exists>s b h. score_listing lower L C = Inr (s, b, h)"
  using score_listing_shape [of lower C L] by blast

lemma entry_ubicacion:
  "breakdown_entry k_ubicacion (score_listing lower L C) = Some (fst (location L C) * 0.25)"
proof -
  obtain s v1 v2 v3 v4 v5 hl where
    "score_listing lower L C =
       Inr (s, [(k_ubicacion, v1), (''servicios'', v2), (''precio'', v3),
                (''conectividad'', v4), (''superficie'', v5)], hl)"
    "v1 = fst (location L C) * 0.25"
    using score_listing_shape [of lower C L] by blast
  then show ?thesis by (simp add: breakdown_entry_def)
qed

lemma entry_precio:
  "breakdown_entry ''precio'' (score_listing lower L C) = Some (spec_price_component L C * 0.2)"
proof -
  obtain s v1 v2 v3 v4 v5 hl where
    "score_listing lower L C =
       Inr (s, [(k_ubicacion, v1), (''servicios'', v2), (''precio'', v3),
                (''conectividad'', v4), (''superficie'', v5)], hl)"
    "v3 = spec_price_component L C * 0.2"
    using score_listing_shape [of lower C L] by blast
  then show ?thesis by (simp add: breakdown_entry_def k_ubicacion_def o_acute_def)
qed

lemma entry_superficie:
  "breakdown_entry ''superficie'' (score_listing lower L C) =
     Some (min (area_m2 L / max (area_threshold_m2 C) 1 / 4) 1 * 0.2)"
proof -
  obtain s v1 v2 v3 v4 v5 hl where
    "score_listing lower L C =
       Inr (s, [(k_ubicacion, v1), (''servicios'', v2), (''precio'', v3),
                (''conectividad'', v4), (''superficie'', v5)], hl)"
    "v5 = min (area_m2 L / max (area_threshold_m2 C) 1 / 4) 1 * 0.2"
    using score_listing_shape [of lower C L] by blast
  then show ?thesis by (simp add: breakdown_entry_def k_ubicacion_def o_acute_def)
qed

text \<open>The scorer reads six things of the criteria and nothing else.\<close>

lemma score_listing_cong:
  assumes "location L C = location L C'"
    and "required_services C = required_services C'"
    and "preferred_services C = preferred_services C'"
    and "price_component L C = price_component L C'"
    and "transport_importance C = transport_importance C'"
    and "area_score L C = area_score L C'"
  shows "score_listing lower L C = score_listing lower L C'"
  unfolding score_listing_def assms ..

subsection \<open>The filter\<close>



subsection \<open>The ranking\<close>

lemma collect_Inr:
  "\<exists>rs. collect lower ls C acc = Inr (acc @ rs) \<and>
        map listing rs = filter (matches lower C) ls"
proof (induction ls arbitrary: acc)
  case Nil
  show ?case by simp
next
  case (Cons L ls)
  show ?case
  proof (cases "matches lower C L")
    case False
    with Cons.IH [of acc] show ?thesis by simp
  next
    case True
    obtain s b h where sc: "score_listing lower L C = Inr (s, b, h)"
      using score_listing_Inr by blast
    define r where "r = \<lparr> listing = L, score = s, breakdown = b, highlights = h \<rparr>"
    obtain rs where rs: "collect lower ls C (acc @ [r]) = Inr ((acc @ [r]) @ rs)"
      "map listing rs = filter (matches lower C) ls"
      using Cons.IH [of "acc @ [r]"] by blast
    have "collect lower (L # ls) C acc = Inr (acc @ (r # rs))"
      using True sc rs(1) by (simp add: r_def)
    moreover have "map listing (r # rs) = filter (matches lower C) (L # ls)"
      using True rs(2) by (simp add: r_def)
    ultimately show ?thesis by blast
  qed
qed

lemma length_slice_to:
  "0 \<le> n \<Longrightarrow> int (length (slice_to xs n)) = min n (int (length xs))"
  by (auto simp: slice_to_def)

lemma slice_to_prefix: "prefix (slice_to xs n) xs"
  by (simp add: slice_to_def take_is_prefix)

lemma sorted_wrt_slice_to: "sorted_wrt P xs \<Longrightarrow> sorted_wrt P (slice_to xs n)"
  by (simp add: slice_to_def sorted_wrt_take)

lemma sort_by_score_reverse_sorted:
  "sorted_wrt (\<lambda>a b. score b \<le> score a) (sort_by_score_reverse rs)"
proof -
  have "sorted (map (\<lambda>r. - score r) (sort_by_score_reverse rs))"
    unfolding sort_by_score_reverse_def by (rule sorted_sort_key)
  then show ?thesis by (simp add: sorted_map)
qed

lemma sort_by_score_reverse_stable:
  "filter (\<lambda>r. score r = k) (sort_by_score_reverse rs) = filter (\<lambda>r. score r = k) rs"
proof -
  have "filter (\<lambda>r. - score r = - k) (sort_key (\<lambda>r. - score r) rs) =
        filter (\<lambda>r. - score r = - k) rs"
    by (rule sort_key_stable)
  then show ?thesis by (simp add: sort_by_score_reverse_def)
qed

section \<open>The claims\<close>

subsection \<open>C1: the breakdown sums to the score\<close>

text \<open>
  C1. For every listing and criteria \<open>score_listing\<close> returns a score and a breakdown
  with exactly the five dimension keys, and the five values sum to the score: the score
  is the left-to-right sum of the breakdown values in insertion order, starting from 0,
  so the two differ by at most \<open>10\<^sup>-\<^sup>9\<close> (in exact arithmetic, by nothing).
\<close>

theorem breakdown_sums_to_score:
  "\<exists>s b h. score_listing lower L C = Inr (s, b, h) \<and>
     map fst b = [k_ubicacion, ''servicios'', ''precio'', ''conectividad'', ''superficie''] \<and>
     s = foldl (+) 0 (map snd b) \<and>
     \<bar>sum_list (map snd b) - s\<bar> \<le> 1 / 10 ^ 9"
proof -
  obtain cov pref conn hl where
    "score_listing lower L C =
       Inr (0 + fst (location L C) * 0.25 + 0.4 * (0.6 * cov + 0.4 * pref)
              + spec_price_component L C * 0.2 + conn * 0.15
              + min (area_m2 L / max (area_threshold_m2 C) 1 / 4) 1 * 0.2,
            [(k_ubicacion, fst (location L C) * 0.25),
             (''servicios'', 0.4 * (0.6 * cov + 0.4 * pref)),
             (''precio'', spec_price_component L C * 0.2),
             (''conectividad'', conn * 0.15),
             (''superficie'', min (area_m2 L / max (area_threshold_m2 C) 1 / 4) 1 * 0.2)],
            hl)"
    using score_listing_shape [of lower C L] by blast
  then show ?thesis by simp
qed

text \<open>On listing A of the example the score is 0.805 and the theorem applies.\<close>

theorem breakdown_sums_to_score_witness:
  "map_sum id fst (score_listing ascii_lower listing_A example_criteria) = Inr (161 / 200) \<and>
   (\<exists>s b h. score_listing ascii_lower listing_A example_criteria = Inr (s, b, h) \<and>
      map fst b = [k_ubicacion, ''servicios'', ''precio'', ''conectividad'', ''superficie''] \<and>
      s = foldl (+) 0 (map snd b) \<and>
      \<bar>sum_list (map snd b) - s\<bar> \<le> 1 / 10 ^ 9)"
proof -
  have "map_sum id fst (score_listing ascii_lower listing_A example_criteria) = Inr (161 / 200)"
    by code_simp
  then show ?thesis
    using breakdown_sums_to_score [of ascii_lower listing_A example_criteria] by blast
qed

subsection \<open>C2: the eligibility filter\<close>



subsection \<open>C3: construction from a dictionary\<close>

text \<open>
  C3, as amended. \<open>from_dict\<close> raises \<open>TypeError\<close> when the mapping has a key that is
  not one of the eleven field names. When every key is a field name it returns an
  instance with exactly the eleven fields, each holding the value the mapping gives it
  or, when the mapping has none, its default.
\<close>

theorem from_dict_keys:
  "(list_ex (\<lambda>k. k \<notin> set FIELD_NAMES) (map fst data) \<longrightarrow> from_dict data = Inl TypeError) \<and>
   (list_all (\<lambda>k. k \<in> set FIELD_NAMES) (map fst data) \<longrightarrow>
      (\<exists>obj. from_dict data = Inr obj \<and> dom obj = set FIELD_NAMES \<and>
         (\<forall>f \<in> set FIELD_NAMES.
            obj f = Some (case map_of data f of Some v \<Rightarrow> v | None \<Rightarrow> field_default f))))"
proof (intro conjI impI)
  assume "list_ex (\<lambda>k. k \<notin> set FIELD_NAMES) (map fst data)"
  then show "from_dict data = Inl TypeError"
    by (simp add: from_dict_def dataclass_init_def)
next
  let ?obj = "\<lambda>f. if f \<in> set FIELD_NAMES
                  then Some (case map_of data f of Some v \<Rightarrow> v | None \<Rightarrow> field_default f)
                  else None"
  assume "list_all (\<lambda>k. k \<in> set FIELD_NAMES) (map fst data)"
  then have "\<not> list_ex (\<lambda>k. k \<notin> set FIELD_NAMES) (map fst data)"
    by (simp add: list_all_iff list_ex_iff)
  then have "from_dict data = Inr ?obj"
    by (simp add: from_dict_def dataclass_init_def)
  moreover have "dom ?obj = set FIELD_NAMES"
    by (auto simp: dom_def)
  ultimately show "\<exists>obj. from_dict data = Inr obj \<and> dom obj = set FIELD_NAMES \<and>
         (\<forall>f \<in> set FIELD_NAMES.
            obj f = Some (case map_of data f of Some v \<Rightarrow> v | None \<Rightarrow> field_default f))"
    by simp
qed

text \<open>
  A mapping with the unknown key \<open>max_price\<close> is refused; one with \<open>min_area_m2\<close> alone
  gives that field its value and the others their defaults.
\<close>

theorem from_dict_keys_witness:
  "list_ex (\<lambda>k. k \<notin> set FIELD_NAMES) (map fst [(''max_price'', PyInt 1)]) \<and>
   from_dict [(''max_price'', PyInt 1)] = Inl TypeError \<and>
   list_all (\<lambda>k. k \<in> set FIELD_NAMES) (map fst [(''min_area_m2'', PyInt 5000)]) \<and>
   (\<exists>obj. from_dict [(''min_area_m2'', PyInt 5000)] = Inr obj \<and>
      obj ''min_area_m2'' = Some (PyInt 5000) \<and>
      obj ''max_total_price'' = Some PyNone \<and>
      obj ''preferred_regions'' = Some (PyTuple []))"
proof -
  have bad: "list_ex (\<lambda>k. k \<notin> set FIELD_NAMES) (map fst [(''max_price'', PyInt 1)])"
    by (simp add: FIELD_NAMES_def)
  have good: "list_all (\<lambda>k. k \<in> set FIELD_NAMES) (map fst [(''min_area_m2'', PyInt 5000)])"
    by (simp add: FIELD_NAMES_def)
  have fields: "''min_area_m2'' \<in> set FIELD_NAMES" "''max_total_price'' \<in> set FIELD_NAMES"
    "''preferred_regions'' \<in> set FIELD_NAMES"
    by (simp_all add: FIELD_NAMES_def)
  from good obtain obj where obj: "from_dict [(''min_area_m2'', PyInt 5000)] = Inr obj"
    "\<forall>f \<in> set FIELD_NAMES.
       obj f = Some (case map_of [(''min_area_m2'', PyInt 5000)] f of
                       Some v \<Rightarrow> v | None \<Rightarrow> field_default f)"
    using from_dict_keys [of "[(''min_area_m2'', PyInt 5000)]"] by blast
  have "obj ''min_area_m2'' = Some (PyInt 5000)"
    using obj(2) fields(1) by simp
  moreover have "obj ''max_total_price'' = Some PyNone"
    using obj(2) fields(2) by (simp add: field_default_def)
  moreover have "obj ''preferred_regions'' = Some (PyTuple [])"
    using obj(2) fields(3) by (simp add: field_default_def)
  ultimately show ?thesis
    using bad good obj(1) from_dict_keys [of "[(''max_price'', PyInt 1)]"] by blast
qed

text \<open>C3 as stated fails: a key that is no field name makes the construction raise.\<close>

theorem from_dict_unknown_key_counterexample:
  "from_dict [(''min_area'', PyInt 5000)] = Inl TypeError"
  by (simp add: from_dict_def dataclass_init_def FIELD_NAMES_def)

subsection \<open>C4: truncation to the best \<open>top_n\<close>\<close>

text \<open>
  C4. For every repository, criteria and \<open>top_n \<ge> 1\<close>, \<open>search\<close> returns a list, and
  its length is the minimum of \<open>top_n\<close> and the number of listings of the repository that
  satisfy \<open>matches\<close>; when no listing does, it returns the empty list and no error.
\<close>

theorem search_length:
  assumes "1 \<le> top_n"
  shows "(\<exists>rs. search lower listings C top_n = Inr rs \<and>
            int (length rs) = min top_n (int (length (filter (matches lower C) listings)))) \<and>
         (filter (matches lower C) listings = [] \<longrightarrow> search lower listings C top_n = Inr [])"
proof -
  obtain rs where rs: "collect lower listings C [] = Inr rs"
      "map listing rs = filter (matches lower C) listings"
    using collect_Inr [of lower listings C "[]"] by auto
  have len: "length rs = length (filter (matches lower C) listings)"
    using rs(2) by (metis length_map)
  have s: "search lower listings C top_n = Inr (slice_to (sort_by_score_reverse rs) top_n)"
    by (simp add: search_def rs(1))
  have "int (length (slice_to (sort_by_score_reverse rs) top_n)) = min top_n (int (length rs))"
    using assms by (simp add: length_slice_to sort_by_score_reverse_def)
  moreover have "slice_to (sort_by_score_reverse rs) top_n = []"
    if "filter (matches lower C) listings = []"
  proof -
    from that len have "rs = []" by simp
    then show ?thesis by (simp add: slice_to_def sort_by_score_reverse_def)
  qed
  ultimately show ?thesis using s len by simp
qed

text \<open>
  The end-to-end example: of the listings A and B only A passes, so the five best are one
  result; with B alone the result is empty.
\<close>

theorem search_length_witness:
  "(1::int) \<le> 5 \<and>
   length (filter (matches ascii_lower example_criteria) [listing_A, listing_B]) = 1 \<and>
   (\<exists>rs. search ascii_lower [listing_A, listing_B] example_criteria 5 = Inr rs \<and>
      length rs = 1) \<and>
   filter (matches ascii_lower example_criteria) [listing_B] = [] \<and>
   search ascii_lower [listing_B] example_criteria 5 = Inr []"
proof -
  have five: "(1::int) \<le> 5" by simp
  have one: "length (filter (matches ascii_lower example_criteria) [listing_A, listing_B]) = 1"
    by code_simp
  have "\<not> matches ascii_lower example_criteria listing_B"
    by code_simp
  then have none: "filter (matches ascii_lower example_criteria) [listing_B] = []"
    by simp
  show ?thesis
    using one none
      search_length [OF five, of ascii_lower "[listing_A, listing_B]" example_criteria]
      search_length [OF five, of ascii_lower "[listing_B]" example_criteria]
    by auto
qed

subsection \<open>C5: order of the results\<close>

text \<open>
  C5. The list \<open>search\<close> returns is sorted by score, highest first, and results of equal
  score keep the order of their listings in the repository: \<open>results\<close>, the list the
  loop builds, has one result per matching listing in repository order, and for every
  score the returned results with that score are an initial part of the results with
  that score in \<open>results\<close>.
\<close>

theorem search_sorted_stable:
  "\<exists>results rs.
     collect lower listings C [] = Inr results \<and>
     map listing results = filter (matches lower C) listings \<and>
     search lower listings C top_n = Inr rs \<and>
     sorted_wrt (\<lambda>a b. score b \<le> score a) rs \<and>
     (\<forall>k. prefix (filter (\<lambda>r. score r = k) rs) (filter (\<lambda>r. score r = k) results))"
proof -
  obtain results where rs: "collect lower listings C [] = Inr results"
      "map listing results = filter (matches lower C) listings"
    using collect_Inr [of lower listings C "[]"] by auto
  define out where "out = slice_to (sort_by_score_reverse results) top_n"
  have s: "search lower listings C top_n = Inr out"
    by (simp add: search_def rs(1) out_def)
  have so: "sorted_wrt (\<lambda>a b. score b \<le> score a) out"
    unfolding out_def by (rule sorted_wrt_slice_to [OF sort_by_score_reverse_sorted])
  have "prefix (filter (\<lambda>r. score r = k) out) (filter (\<lambda>r. score r = k) results)" for k
  proof -
    have "prefix (filter (\<lambda>r. score r = k) out)
            (filter (\<lambda>r. score r = k) (sort_by_score_reverse results))"
      unfolding out_def by (rule filter_mono_prefix [OF slice_to_prefix])
    then show ?thesis by (simp add: sort_by_score_reverse_stable)
  qed
  with rs s so show ?thesis by blast
qed

text \<open>
  Two listings of equal score come back in repository order, whichever comes first.
\<close>

theorem search_sorted_stable_witness:
  "map_sum id (map (listing_id \<circ> listing))
      (search ascii_lower [listing_A, listing_A2] default_criteria 5) = Inr [''A'', ''A2''] \<and>
   map_sum id (map (listing_id \<circ> listing))
      (search ascii_lower [listing_A2, listing_A] default_criteria 5) = Inr [''A2'', ''A''] \<and>
   (\<exists>results rs.
      collect ascii_lower [listing_A, listing_A2] default_criteria [] = Inr results \<and>
      map listing results = filter (matches ascii_lower default_criteria) [listing_A, listing_A2] \<and>
      search ascii_lower [listing_A, listing_A2] default_criteria 5 = Inr rs \<and>
      sorted_wrt (\<lambda>a b. score b \<le> score a) rs \<and>
      (\<forall>k. prefix (filter (\<lambda>r. score r = k) rs) (filter (\<lambda>r. score r = k) results)))"
proof -
  have "map_sum id (map (listing_id \<circ> listing))
      (search ascii_lower [listing_A, listing_A2] default_criteria 5) = Inr [''A'', ''A2'']"
    by code_simp
  moreover have "map_sum id (map (listing_id \<circ> listing))
      (search ascii_lower [listing_A2, listing_A] default_criteria 5) = Inr [''A2'', ''A'']"
    by code_simp
  ultimately show ?thesis
    using search_sorted_stable [of ascii_lower "[listing_A, listing_A2]" default_criteria 5]
    by blast
qed

subsection \<open>C6: saturation of the area dimension\<close>

text \<open>
  C6, as amended. For every listing whose area is at least four times
  \<open>max(area_threshold_m2, 1)\<close>, the divisor the scorer uses, the entry \<open>superficie\<close> of
  the breakdown is exactly 0.2.
\<close>

theorem area_saturation:
  assumes "4 * max (area_threshold_m2 C) 1 \<le> area_m2 L"
  shows "breakdown_entry ''superficie'' (score_listing lower L C) = Some 0.2"
proof -
  have "0 < max (area_threshold_m2 C) 1" by simp
  with assms have "1 \<le> area_m2 L / max (area_threshold_m2 C) 1 / 4"
    by (simp add: pos_le_divide_eq mult.commute)
  then have "min (area_m2 L / max (area_threshold_m2 C) 1 / 4) 1 = 1" by simp
  then show ?thesis by (simp add: entry_superficie)
qed

text \<open>Listing A, of 10000 square metres, under criteria with no minimum area.\<close>

theorem area_saturation_witness:
  "4 * max (area_threshold_m2 default_criteria) 1 \<le> area_m2 listing_A \<and>
   breakdown_entry ''superficie'' (score_listing ascii_lower listing_A default_criteria) = Some 0.2"
proof -
  have h: "4 * max (area_threshold_m2 default_criteria) 1 \<le> area_m2 listing_A"
    by (simp add: area_threshold_m2_def default_criteria_def listing_A_def)
  show ?thesis
    using h area_saturation [OF h, of ascii_lower] by simp
qed

text \<open>
  C6 as stated fails when the threshold is below 1: with no minimum area the threshold is
  0, a listing of 2 square metres has four times that, and its entry is 0.1.
\<close>

theorem area_saturation_counterexample:
  "4 * area_threshold_m2 default_criteria \<le> area_m2 (listing_A \<lparr> area_m2 := 2 \<rparr>) \<and>
   breakdown_entry ''superficie''
     (score_listing ascii_lower (listing_A \<lparr> area_m2 := 2 \<rparr>) default_criteria) = Some (1 / 10) \<and>
   breakdown_entry ''superficie''
     (score_listing ascii_lower (listing_A \<lparr> area_m2 := 2 \<rparr>) default_criteria) \<noteq> Some 0.2"
proof -
  have "4 * area_threshold_m2 default_criteria \<le> area_m2 (listing_A \<lparr> area_m2 := 2 \<rparr>)"
    by (simp add: area_threshold_m2_def default_criteria_def)
  moreover have "breakdown_entry ''superficie''
     (score_listing ascii_lower (listing_A \<lparr> area_m2 := 2 \<rparr>) default_criteria) = Some (1 / 10)"
    by code_simp
  ultimately show ?thesis by simp
qed

subsection \<open>C7: the price dimension\<close>

text \<open>
  C7. For every listing and criteria the entry \<open>precio\<close> of the breakdown is 0.2 times
  the price component of the scoring table: 0.6 when \<open>max_total_price\<close> is not set and
  \<open>max(0, 1 - min(total_price / max_total_price, 1.5))\<close> when it is, averaged with
  \<open>max(0, 1 - min(price_per_m2 / max_price_per_m2, 1.5))\<close> when \<open>max_price_per_m2\<close> is
  set. A cap is set here in the sense of the guards of the scorer (\<open>cap_set\<close>).
\<close>

theorem price_entry:
  "breakdown_entry ''precio'' (score_listing lower L C) = Some (0.2 * spec_price_component L C)"
  by (simp add: entry_precio)

text \<open>
  Listing A costs half of either cap of \<open>capped_criteria\<close>: both terms are 0.5, and so is
  their mean. Without caps the component is 0.6.
\<close>

theorem price_entry_witness:
  "spec_price_component listing_A capped_criteria = 1 / 2 \<and>
   breakdown_entry ''precio'' (score_listing ascii_lower listing_A capped_criteria) = Some (1 / 10) \<and>
   spec_price_component listing_A default_criteria = 3 / 5 \<and>
   breakdown_entry ''precio'' (score_listing ascii_lower listing_A default_criteria) = Some (3 / 25)"
proof -
  have "spec_price_component listing_A capped_criteria = 1 / 2"
    by (simp add: spec_price_component_def cap_set_def clamped_def capped_criteria_def
        default_criteria_def listing_A_def total_price_def)
  moreover have "spec_price_component listing_A default_criteria = 3 / 5"
    by (simp add: spec_price_component_def cap_set_def default_criteria_def)
  ultimately show ?thesis
    using price_entry [of ascii_lower listing_A capped_criteria]
      price_entry [of ascii_lower listing_A default_criteria]
    by simp
qed

subsection \<open>C8: letter case of the region in the filter and in the scorer\<close>

text \<open>
  C8. When the region of the listing equals an entry of \<open>preferred_regions\<close> after
  lower-casing but is not itself an entry, the filter does not reject the listing on the
  region rule (its verdict is the one it gives without the rule), while the scorer takes
  the branch of a region that is not preferred: raw value 0.4, entry
  \<open>0.4 \<times> 0.25 = 0.1\<close>.
\<close>

theorem region_case_asymmetry:
  assumes "lower (region L) \<in> lower ` set (preferred_regions C)"
    and "region L \<notin> set (preferred_regions C)"
  shows "matches lower C L = matches lower (C \<lparr> preferred_regions := [] \<rparr>) L \<and>
         location L C = (0.4, ''Regi'' @ o_acute @ ''n alternativa'') \<and>
         breakdown_entry k_ubicacion (score_listing lower L C) = Some (0.4 * 0.25) \<and>
         breakdown_entry k_ubicacion (score_listing lower L C) = Some 0.1"
proof -
  from assms(1) have ne: "preferred_regions C \<noteq> []" by auto
  have m: "matches lower C L = matches lower (C \<lparr> preferred_regions := [] \<rparr>) L"
    using assms(1) ne by (simp add: matches_def area_threshold_m2_def Let_def)
  have l: "location L C = (0.4, ''Regi'' @ o_acute @ ''n alternativa'')"
    using ne assms(2) by (simp add: location_def)
  show ?thesis using m l by (simp add: entry_ubicacion)
qed

text \<open>Listing B lies in \<open>Maule\<close>; the criteria ask for \<open>maule\<close>.\<close>

theorem region_case_asymmetry_witness:
  "ascii_lower (region listing_B) \<in> ascii_lower ` set (preferred_regions maule_criteria) \<and>
   region listing_B \<notin> set (preferred_regions maule_criteria) \<and>
   matches ascii_lower maule_criteria listing_B \<and>
   breakdown_entry k_ubicacion (score_listing ascii_lower listing_B maule_criteria) = Some 0.1"
proof -
  have h1: "ascii_lower (region listing_B) \<in> ascii_lower ` set (preferred_regions maule_criteria)"
    by code_simp
  have h2: "region listing_B \<notin> set (preferred_regions maule_criteria)"
    by (simp add: listing_B_def maule_criteria_def)
  have "matches ascii_lower maule_criteria listing_B"
    by code_simp
  then show ?thesis
    using h1 h2 region_case_asymmetry [OF h1 h2] by simp
qed

subsection \<open>C9: the scorer and the search never raise\<close>

text \<open>
  C9. For every listing, criteria, importance weights, repository and \<open>top_n\<close>:
  \<open>score_listing\<close> returns a result, \<open>transport_score\<close> returns a result and \<open>search\<close>
  returns a list. No division of the three functions has a zero divisor;
  \<open>mode_availability\<close> divides by the literals 10 and 50 only.
\<close>

theorem scoring_never_raises:
  "(\<exists>r. score_listing lower L C = Inr r) \<and>
   (\<exists>t. transport_score lower L importance = Inr t) \<and>
   (\<exists>rs. search lower listings C top_n = Inr rs)"
proof -
  obtain rs where "collect lower listings C [] = Inr rs"
    using collect_Inr [of lower listings C "[]"] by auto
  then have "search lower listings C top_n = Inr (slice_to (sort_by_score_reverse rs) top_n)"
    by (simp add: search_def)
  then show ?thesis
    using score_listing_Inr [of lower L C] transport_score_Inr [of lower L importance] by blast
qed

text \<open>
  The edge cases: area 0 against threshold 0, no required and no preferred services,
  and weights 1 and -1, whose sum is 0 and is replaced by 1.
\<close>

theorem scoring_never_raises_witness:
  "area_threshold_m2 zero_sum_criteria = 0 \<and> area_m2 listing_zero_area = 0 \<and>
   sum_list (map snd (transport_importance zero_sum_criteria)) = 0 \<and>
   transport_score ascii_lower listing_zero_area (transport_importance zero_sum_criteria) = Inr 0 \<and>
   breakdown_entry ''superficie''
     (score_listing ascii_lower listing_zero_area zero_sum_criteria) = Some 0 \<and>
   (\<exists>r. score_listing ascii_lower listing_zero_area zero_sum_criteria = Inr r) \<and>
   (\<exists>t. transport_score ascii_lower listing_zero_area
           (transport_importance zero_sum_criteria) = Inr t) \<and>
   (\<exists>rs. search ascii_lower [listing_zero_area] zero_sum_criteria 5 = Inr rs)"
proof -
  have "area_threshold_m2 zero_sum_criteria = 0"
    by (simp add: area_threshold_m2_def zero_sum_criteria_def default_criteria_def)
  moreover have "area_m2 listing_zero_area = 0"
    by (simp add: listing_zero_area_def)
  moreover have "sum_list (map snd (transport_importance zero_sum_criteria)) = 0"
    by (simp add: zero_sum_criteria_def)
  moreover have "transport_score ascii_lower listing_zero_area
      (transport_importance zero_sum_criteria) = Inr 0"
    by code_simp
  moreover have "breakdown_entry ''superficie''
     (score_listing ascii_lower listing_zero_area zero_sum_criteria) = Some 0"
    by code_simp
  ultimately show ?thesis
    using scoring_never_raises [of ascii_lower listing_zero_area zero_sum_criteria
        "transport_importance zero_sum_criteria" "[listing_zero_area]" 5]
    by blast
qed

subsection \<open>C10: a cap of zero\<close>

text \<open>
  C10. With \<open>max_total_price = 0\<close> the filter applies the cap and rejects every listing
  whose total price is above 0, while the scorer returns what it returns when the cap is
  unset; without a cap per square metre the price component is the flat 0.6, the entry
  \<open>0.2 \<times> 0.6\<close>. The same holds for \<open>max_price_per_m2 = 0\<close>: the filter rejects every
  listing whose price per square metre is above 0, and the scorer returns what it
  returns when that cap is unset.
\<close>

theorem zero_cap_disagreement:
  "(max_total_price C = Some 0 \<longrightarrow>
      (0 < total_price L \<longrightarrow> \<not> matches lower C L) \<and>
      score_listing lower L C = score_listing lower L (C \<lparr> max_total_price := None \<rparr>) \<and>
      (max_price_per_m2 C = None \<longrightarrow>
         breakdown_entry ''precio'' (score_listing lower L C) = Some (0.2 * 0.6))) \<and>
   (max_price_per_m2 C = Some 0 \<longrightarrow>
      (0 < price_per_m2 L \<longrightarrow> \<not> matches lower C L) \<and>
      score_listing lower L C = score_listing lower L (C \<lparr> max_price_per_m2 := None \<rparr>))"
proof (intro conjI impI)
  assume z: "max_total_price C = Some 0"
  show "\<not> matches lower C L" if "0 < total_price L"
    using z that by (simp add: matches_def exceeds_def)
  show "score_listing lower L C = score_listing lower L (C \<lparr> max_total_price := None \<rparr>)"
    using z by (intro score_listing_cong)
      (simp_all add: price_component_def location_def area_score_def
        area_threshold_m2_def Let_def)
  show "breakdown_entry ''precio'' (score_listing lower L C) = Some (0.2 * 0.6)"
    if "max_price_per_m2 C = None"
    using z that by (simp add: entry_precio spec_price_component_def cap_set_def)
next
  assume z: "max_price_per_m2 C = Some 0"
  show "\<not> matches lower C L" if "0 < price_per_m2 L"
    using z that by (simp add: matches_def exceeds_def)
  show "score_listing lower L C = score_listing lower L (C \<lparr> max_price_per_m2 := None \<rparr>)"
    using z by (intro score_listing_cong)
      (simp_all add: price_component_def location_def area_score_def
        area_threshold_m2_def Let_def)
qed

text \<open>
  Listing A has a positive price. A cap of zero makes the filter reject it, where the
  criteria without the cap accept it, and leaves its price entry at 0.12.
\<close>

theorem zero_cap_disagreement_witness:
  "max_total_price zero_total_cap = Some 0 \<and> max_price_per_m2 zero_total_cap = None \<and>
   0 < total_price listing_A \<and>
   \<not> matches ascii_lower zero_total_cap listing_A \<and>
   matches ascii_lower (zero_total_cap \<lparr> max_total_price := None \<rparr>) listing_A \<and>
   breakdown_entry ''precio'' (score_listing ascii_lower listing_A zero_total_cap) = Some (3 / 25) \<and>
   max_price_per_m2 zero_m2_cap = Some 0 \<and> 0 < price_per_m2 listing_A \<and>
   \<not> matches ascii_lower zero_m2_cap listing_A \<and>
   matches ascii_lower (zero_m2_cap \<lparr> max_price_per_m2 := None \<rparr>) listing_A \<and>
   score_listing ascii_lower listing_A zero_m2_cap =
     score_listing ascii_lower listing_A (zero_m2_cap \<lparr> max_price_per_m2 := None \<rparr>)"
proof -
  have t: "max_total_price zero_total_cap = Some 0" "max_price_per_m2 zero_total_cap = None"
    by (simp_all add: zero_total_cap_def default_criteria_def)
  have m: "max_price_per_m2 zero_m2_cap = Some 0"
    by (simp add: zero_m2_cap_def)
  have p: "0 < total_price listing_A" "0 < price_per_m2 listing_A"
    by (simp_all add: total_price_def listing_A_def)
  have a1: "matches ascii_lower (zero_total_cap \<lparr> max_total_price := None \<rparr>) listing_A"
    by code_simp
  have a2: "matches ascii_lower (zero_m2_cap \<lparr> max_price_per_m2 := None \<rparr>) listing_A"
    by code_simp
  have total: "\<not> matches ascii_lower zero_total_cap listing_A \<and>
      breakdown_entry ''precio'' (score_listing ascii_lower listing_A zero_total_cap) =
        Some (0.2 * 0.6)"
    using t p(1) zero_cap_disagreement [of zero_total_cap listing_A ascii_lower] by blast
  have m2: "\<not> matches ascii_lower zero_m2_cap listing_A \<and>
      score_listing ascii_lower listing_A zero_m2_cap =
        score_listing ascii_lower listing_A (zero_m2_cap \<lparr> max_price_per_m2 := None \<rparr>)"
    using m p(2) zero_cap_disagreement [of zero_m2_cap listing_A ascii_lower] by blast
  have "Some (0.2 * 0.6) = Some (3 / 25 :: real)" by simp
  with total have total': "\<not> matches ascii_lower zero_total_cap listing_A \<and>
      breakdown_entry ''precio'' (score_listing ascii_lower listing_A zero_total_cap) =
        Some (3 / 25)"
    by metis
  show ?thesis
    using t m p a1 a2 total' m2 by blast
qed

end
